theory Spec2Isabelle
  imports Main
begin

section \<open>The version surface\<close>

text \<open>
  \<^verbatim>\<open>SymmetricCryptoApiProperties.hpp\<close> exposes one constant:
  \<^verbatim>\<open>static const std::string& SymmetricCryptoApiProperties_VERSION = "0.1";\<close>
\<close>

definition SymmetricCryptoApiProperties_VERSION :: string where
  "SymmetricCryptoApiProperties_VERSION = ''0.1''"

text \<open>
  The test \<^verbatim>\<open>versionIsCorrectlyWritten\<close> builds \<^verbatim>\<open>std::regex r("\\d+\\.\\d+")\<close> and asserts
  \<^verbatim>\<open>std::regex_match(apiVersion, r)\<close>, a match of the whole string. The fragment of regular
  expressions the pattern needs is embedded as a datatype, and \<^verbatim>\<open>regex_match\<close> as a matcher
  by derivatives: the expression is rewritten character by character and the string matches
  when the expression left at its end accepts the empty string.
\<close>

datatype regex =
    Never
  | Eps
  | Chr char
  | Digit
  | Alt regex regex
  | Cat regex regex
  | Star regex

text \<open>The class \<^verbatim>\<open>\d\<close> on a \<^verbatim>\<open>char\<close> string: the ten decimal digits.\<close>

definition is_digit :: "char \<Rightarrow> bool" where
  "is_digit c = (c \<in> set ''0123456789'')"

text \<open>The quantifier \<^verbatim>\<open>+\<close>: one occurrence, then any number of further ones.\<close>

definition OneOrMore :: "regex \<Rightarrow> regex" where
  "OneOrMore r = Cat r (Star r)"

fun nullable :: "regex \<Rightarrow> bool" where
  "nullable Never = False"
| "nullable Eps = True"
| "nullable (Chr c) = False"
| "nullable Digit = False"
| "nullable (Alt r s) = (nullable r \<or> nullable s)"
| "nullable (Cat r s) = (nullable r \<and> nullable s)"
| "nullable (Star r) = True"

fun deriv :: "char \<Rightarrow> regex \<Rightarrow> regex" where
  "deriv a Never = Never"
| "deriv a Eps = Never"
| "deriv a (Chr c) = (if a = c then Eps else Never)"
| "deriv a Digit = (if is_digit a then Eps else Never)"
| "deriv a (Alt r s) = Alt (deriv a r) (deriv a s)"
| "deriv a (Cat r s) =
     (if nullable r then Alt (Cat (deriv a r) s) (deriv a s) else Cat (deriv a r) s)"
| "deriv a (Star r) = Cat (deriv a r) (Star r)"

fun derivs :: "string \<Rightarrow> regex \<Rightarrow> regex" where
  "derivs [] r = r"
| "derivs (a # w) r = derivs w (deriv a r)"

definition regex_match :: "string \<Rightarrow> regex \<Rightarrow> bool" where
  "regex_match s r = nullable (derivs s r)"

text \<open>The pattern \<^verbatim>\<open>\d+\.\d+\<close> of the test.\<close>

definition version_pattern :: regex where
  "version_pattern = Cat (OneOrMore Digit) (Cat (Chr (CHR ''.'')) (OneOrMore Digit))"

definition versionIsCorrectlyWritten :: bool where
  "versionIsCorrectlyWritten = regex_match SymmetricCryptoApiProperties_VERSION version_pattern"

subsection \<open>The language of an expression\<close>

definition conc :: "string set \<Rightarrow> string set \<Rightarrow> string set" where
  "conc A B = {u @ v | u v. u \<in> A \<and> v \<in> B}"

inductive_set star :: "string set \<Rightarrow> string set" for A :: "string set" where
  star_nil: "[] \<in> star A"
| star_app: "u \<in> A \<Longrightarrow> v \<in> star A \<Longrightarrow> u @ v \<in> star A"

fun lang :: "regex \<Rightarrow> string set" where
  "lang Never = {}"
| "lang Eps = {[]}"
| "lang (Chr c) = {[c]}"
| "lang Digit = {[c] | c. is_digit c}"
| "lang (Alt r s) = lang r \<union> lang s"
| "lang (Cat r s) = conc (lang r) (lang s)"
| "lang (Star r) = star (lang r)"

text \<open>A string is a well-formed version segment when it is a non-empty run of digits.\<close>

definition segment :: "string \<Rightarrow> bool" where
  "segment w = (w \<noteq> [] \<and> list_all is_digit w)"

section \<open>The declared interface\<close>

text \<open>
  The three interface classes declare pure virtual member functions only. What the
  repository fixes for each of them is its signature, embedded as data with one
  constructor per member function: the fourteen of
  \<^verbatim>\<open>SymmetricCryptoCardTransactionManagerSpi\<close>, the four of
  \<^verbatim>\<open>SymmetricCryptoCardTransactionManagerFactorySpi\<close> and the seven of
  \<^verbatim>\<open>SvCommandSecurityDataApi\<close>.
\<close>

datatype operation =
    initTerminalSecureSessionContext
  | initTerminalSessionMac
  | updateTerminalSessionMac
  | finalizeTerminalSessionMac
  | generateTerminalSessionMac
  | activateEncryption
  | deactivateEncryption
  | isCardSessionMacValid
  | computeSvCommandSecurityData
  | isCardSvMacValid
  | cipherPinForPresentation
  | cipherPinForModification
  | generateCipheredCardKey
  | synchronize
  | isExtendedModeSupported
  | getMaxCardApduLengthSupported
  | preInitTerminalSessionContext
  | createCardTransactionManager
  | getSvGetRequest
  | getSvGetResponse
  | getSvCommandPartialRequest
  | setSerialNumber
  | setTransactionNumber
  | setTerminalChallenge
  | setTerminalSvMac

text \<open>
  The declared return types. A function declared to return \<^verbatim>\<open>T&\<close> hands its caller an
  object that already exists; one declared to return \<^verbatim>\<open>T\<close> hands it a new object,
  initialised by the \<^verbatim>\<open>return\<close> statement and distinct from every object that existed
  before the call, the one the function was called on included.
\<close>

datatype return_type =
    Ret_void
  | Ret_bool
  | Ret_int
  | Ret_bytes_ref
  | Ret_const_bytes_ref
  | Ret_shared_ptr_SymmetricCryptoCardTransactionManagerSpi
  | Ret_SvCommandSecurityDataApi_ref
  | Ret_SvCommandSecurityDataApi_value

fun declared_return :: "operation \<Rightarrow> return_type" where
  "declared_return initTerminalSecureSessionContext = Ret_bytes_ref"
| "declared_return initTerminalSessionMac = Ret_void"
| "declared_return updateTerminalSessionMac = Ret_const_bytes_ref"
| "declared_return finalizeTerminalSessionMac = Ret_const_bytes_ref"
| "declared_return generateTerminalSessionMac = Ret_const_bytes_ref"
| "declared_return activateEncryption = Ret_void"
| "declared_return deactivateEncryption = Ret_void"
| "declared_return isCardSessionMacValid = Ret_bool"
| "declared_return computeSvCommandSecurityData = Ret_void"
| "declared_return isCardSvMacValid = Ret_bool"
| "declared_return cipherPinForPresentation = Ret_const_bytes_ref"
| "declared_return cipherPinForModification = Ret_const_bytes_ref"
| "declared_return generateCipheredCardKey = Ret_const_bytes_ref"
| "declared_return synchronize = Ret_void"
| "declared_return isExtendedModeSupported = Ret_bool"
| "declared_return getMaxCardApduLengthSupported = Ret_int"
| "declared_return preInitTerminalSessionContext = Ret_void"
| "declared_return createCardTransactionManager =
     Ret_shared_ptr_SymmetricCryptoCardTransactionManagerSpi"
| "declared_return getSvGetRequest = Ret_const_bytes_ref"
| "declared_return getSvGetResponse = Ret_const_bytes_ref"
| "declared_return getSvCommandPartialRequest = Ret_const_bytes_ref"
| "declared_return setSerialNumber = Ret_SvCommandSecurityDataApi_ref"
| "declared_return setTransactionNumber = Ret_SvCommandSecurityDataApi_ref"
| "declared_return setTerminalChallenge = Ret_SvCommandSecurityDataApi_value"
| "declared_return setTerminalSvMac = Ret_SvCommandSecurityDataApi_value"

text \<open>
  Only a call through a reference return type can give the caller the object the
  function was called on.
\<close>

definition may_return_current_instance :: "operation \<Rightarrow> bool" where
  "may_return_current_instance f = (declared_return f = Ret_SvCommandSecurityDataApi_ref)"

section \<open>The IO exception\<close>

text \<open>
  \<^verbatim>\<open>SymmetricCryptoIOException\<close> derives from \<^verbatim>\<open>std::exception\<close> and declares no data
  member: an object of the class is its base sub-object. What a \<^verbatim>\<open>std::exception\<close>
  holds, and what its copy constructor keeps of the object it copies, is left to the
  C++ library; the state of the base is the type parameter \<open>'e\<close>, the state of a
  default-constructed \<^verbatim>\<open>std::exception\<close> and the copy constructor are parameters of the
  two constructors. The cause is a \<^verbatim>\<open>std::shared_ptr\<close>, which may be null: it is an option,
  and the second constructor, which dereferences it, has no result on \<open>None\<close>.
\<close>

record 'e SymmetricCryptoIOException =
  base :: 'e

text \<open>
  \<^verbatim>\<open>explicit SymmetricCryptoIOException(const std::string& message)
    : std::exception() { (void)message; }\<close>
\<close>

definition SymmetricCryptoIOException_message ::
  "'e \<Rightarrow> string \<Rightarrow> 'e SymmetricCryptoIOException" where
  "SymmetricCryptoIOException_message default_exception message =
     \<lparr>base = default_exception\<rparr>"

text \<open>
  \<^verbatim>\<open>SymmetricCryptoIOException(const std::string& message,
      const std::shared_ptr<std::exception> cause)
    : std::exception(*cause) { (void)message; }\<close>
\<close>

definition SymmetricCryptoIOException_message_cause ::
  "('c \<Rightarrow> 'e) \<Rightarrow> string \<Rightarrow> 'c option \<Rightarrow> 'e SymmetricCryptoIOException option" where
  "SymmetricCryptoIOException_message_cause copy_exception message cause =
     (case cause of
        None \<Rightarrow> None
      | Some c \<Rightarrow> Some \<lparr>base = copy_exception c\<rparr>)"

section \<open>Properties of the regular-expression matcher\<close>

subsection \<open>The matcher decides the language\<close>

lemma nullable_lang: "nullable r = ([] \<in> lang r)"
  by (induction r) (auto simp: conc_def intro: star.star_nil)

lemma conc_Cons:
  "(a # w \<in> conc A B) = (([] \<in> A \<and> a # w \<in> B) \<or> (\<exists>u v. w = u @ v \<and> a # u \<in> A \<and> v \<in> B))"
  unfolding conc_def by (auto simp: Cons_eq_append_conv)

lemma star_Cons_split:
  assumes "x \<in> star A" and "x = a # w"
  shows "\<exists>u v. w = u @ v \<and> a # u \<in> A \<and> v \<in> star A"
  using assms
proof (induction rule: star.induct)
  case star_nil
  then show ?case by simp
next
  case (star_app u v)
  show ?case
  proof (cases u)
    case Nil
    with star_app show ?thesis by simp
  next
    case (Cons b u')
    with star_app.prems have "b = a" and "w = u' @ v" by simp_all
    with Cons star_app.hyps show ?thesis by blast
  qed
qed

lemma star_Cons:
  "(a # w \<in> star A) = (\<exists>u v. w = u @ v \<and> a # u \<in> A \<and> v \<in> star A)"
proof
  assume "a # w \<in> star A"
  then show "\<exists>u v. w = u @ v \<and> a # u \<in> A \<and> v \<in> star A"
    by (rule star_Cons_split) simp
next
  assume "\<exists>u v. w = u @ v \<and> a # u \<in> A \<and> v \<in> star A"
  then obtain u v where "w = u @ v" "a # u \<in> A" "v \<in> star A" by blast
  then have "(a # u) @ v \<in> star A" by (intro star.star_app)
  with \<open>w = u @ v\<close> show "a # w \<in> star A" by simp
qed

lemma deriv_lang: "(w \<in> lang (deriv a r)) = (a # w \<in> lang r)"
proof (induction r arbitrary: w)
  case (Cat r s)
  then show ?case
    by (auto simp: conc_Cons nullable_lang) (auto simp: conc_def)
next
  case (Star r)
  then show ?case
    by (auto simp: star_Cons) (auto simp: conc_def)
qed auto

lemma derivs_lang: "nullable (derivs s r) = (s \<in> lang r)"
  by (induction s arbitrary: r) (simp_all add: nullable_lang deriv_lang)

lemma regex_match_lang: "regex_match s r = (s \<in> lang r)"
  by (simp add: regex_match_def derivs_lang)

subsection \<open>The language of the version pattern\<close>

lemma digit_not_dot: "is_digit c \<Longrightarrow> c \<noteq> CHR ''.''"
  by (auto simp: is_digit_def)

lemma star_digits: "(w \<in> star (lang Digit)) = list_all is_digit w"
proof
  assume "w \<in> star (lang Digit)"
  then show "list_all is_digit w"
    by (induction rule: star.induct) auto
next
  assume "list_all is_digit w"
  then show "w \<in> star (lang Digit)"
  proof (induction w)
    case Nil
    show ?case by (rule star.star_nil)
  next
    case (Cons c w)
    then have "[c] \<in> lang Digit" and "w \<in> star (lang Digit)" by simp_all
    then have "[c] @ w \<in> star (lang Digit)" by (rule star.star_app)
    then show ?case by simp
  qed
qed

lemma lang_OneOrMore_Digit: "(w \<in> lang (OneOrMore Digit)) = segment w"
proof (cases w)
  case Nil
  then show ?thesis by (simp add: OneOrMore_def conc_def segment_def)
next
  case (Cons c u)
  have "(c # u \<in> conc (lang Digit) (star (lang Digit))) = (is_digit c \<and> list_all is_digit u)"
    unfolding conc_Cons star_digits by auto
  with Cons show ?thesis by (simp add: OneOrMore_def segment_def)
qed

lemma lang_version_pattern:
  "(s \<in> lang version_pattern) =
     (\<exists>major minor. s = major @ ''.'' @ minor \<and> segment major \<and> segment minor)"
proof -
  have "(s \<in> lang version_pattern) =
     (\<exists>u v. s = u @ v \<and> u \<in> lang (OneOrMore Digit) \<and>
        (\<exists>x y. v = x @ y \<and> x = ''.'' \<and> y \<in> lang (OneOrMore Digit)))"
    by (auto simp: version_pattern_def conc_def)
  then show ?thesis
    by (auto simp: lang_OneOrMore_Digit)
qed

lemma segment_no_dot: "segment w \<Longrightarrow> CHR ''.'' \<notin> set w"
  by (auto simp: segment_def list_all_iff dest: digit_not_dot)

lemma segment_count_dot: "segment w \<Longrightarrow> count_list w (CHR ''.'') = 0"
  by (simp add: segment_no_dot)

lemma split_at_only_dot:
  assumes "major @ d # minor = a @ d # b" and "d \<notin> set major" and "d \<notin> set minor"
  shows "a = major \<and> b = minor"
  using assms
  by (auto simp: append_eq_append_conv2 Cons_eq_append_conv append_eq_Cons_conv)

section \<open>The version string and its pattern\<close>

text \<open>
  Claim C9. The exposed version string \<^verbatim>\<open>"0.1"\<close> is a major and a minor segment, each a
  non-empty run of decimal digits, with one dot between them, and the test's
  \<^verbatim>\<open>regex_match\<close> against \<^verbatim>\<open>\d+\.\d+\<close> accepts it. The pattern accepts exactly the strings
  of that form: a string whose number of dots is not one is rejected, and so is a string
  split at a dot into two parts one of which is not a non-empty run of digits.
\<close>

theorem version_string_matches_pattern:
  "versionIsCorrectlyWritten \<and>
   (\<exists>major minor. SymmetricCryptoApiProperties_VERSION = major @ ''.'' @ minor \<and>
      segment major \<and> segment minor) \<and>
   (\<forall>s. regex_match s version_pattern =
      (\<exists>major minor. s = major @ ''.'' @ minor \<and> segment major \<and> segment minor)) \<and>
   (\<forall>s. count_list s (CHR ''.'') \<noteq> 1 \<longrightarrow> \<not> regex_match s version_pattern) \<and>
   (\<forall>a b. \<not> segment a \<or> \<not> segment b \<longrightarrow> \<not> regex_match (a @ ''.'' @ b) version_pattern)"
proof -
  have form: "SymmetricCryptoApiProperties_VERSION = ''0'' @ ''.'' @ ''1''"
    by (simp add: SymmetricCryptoApiProperties_VERSION_def)
  have segs: "segment ''0''" "segment ''1''"
    by (simp_all add: segment_def is_digit_def)
  have shape: "\<exists>major minor. SymmetricCryptoApiProperties_VERSION = major @ ''.'' @ minor \<and>
      segment major \<and> segment minor"
    using form segs by blast
  have char: "regex_match s version_pattern =
      (\<exists>major minor. s = major @ ''.'' @ minor \<and> segment major \<and> segment minor)" for s
    by (simp add: regex_match_lang lang_version_pattern)
  have test: "versionIsCorrectlyWritten"
    unfolding versionIsCorrectlyWritten_def char by (rule shape)
  have dots: "\<not> regex_match s version_pattern" if "count_list s (CHR ''.'') \<noteq> 1" for s
  proof
    assume "regex_match s version_pattern"
    then obtain major minor where "s = major @ ''.'' @ minor" "segment major" "segment minor"
      unfolding char by blast
    then have "count_list s (CHR ''.'') = 1"
      by (simp add: segment_count_dot)
    with that show False by simp
  qed
  have parts: "\<not> regex_match (a @ ''.'' @ b) version_pattern"
    if "\<not> segment a \<or> \<not> segment b" for a b
  proof
    assume "regex_match (a @ ''.'' @ b) version_pattern"
    then obtain major minor where
      eq: "a @ ''.'' @ b = major @ ''.'' @ minor" and seg: "segment major" "segment minor"
      unfolding char by blast
    from eq have "major @ CHR ''.'' # minor = a @ CHR ''.'' # b" by simp
    moreover from seg have "CHR ''.'' \<notin> set major" and "CHR ''.'' \<notin> set minor"
      by (simp_all add: segment_no_dot)
    ultimately have "a = major \<and> b = minor"
      by (rule split_at_only_dot)
    with seg that show False by simp
  qed
  from test shape char dots parts show ?thesis by blast
qed

theorem version_string_matches_pattern_witness:
  "regex_match ''0.1'' version_pattern \<and>
   count_list ''1.2.3'' (CHR ''.'') \<noteq> 1 \<and> \<not> regex_match ''1.2.3'' version_pattern \<and>
   \<not> segment ''x'' \<and> \<not> regex_match (''1'' @ ''.'' @ ''x'') version_pattern"
proof -
  have count: "count_list ''1.2.3'' (CHR ''.'') \<noteq> 1" by simp
  have bad: "\<not> segment ''1'' \<or> \<not> segment ''x''"
    by (simp add: segment_def is_digit_def)
  have x: "\<not> segment ''x''"
    by (simp add: segment_def is_digit_def)
  have ok: "regex_match ''0.1'' version_pattern"
    using version_string_matches_pattern
    by (simp add: versionIsCorrectlyWritten_def SymmetricCryptoApiProperties_VERSION_def)
  have many: "\<not> regex_match ''1.2.3'' version_pattern"
    using version_string_matches_pattern count by blast
  have letter: "\<not> regex_match (''1'' @ ''.'' @ ''x'') version_pattern"
    using version_string_matches_pattern bad by blast
  from ok count many x letter show ?thesis by blast
qed

section \<open>What an IO exception keeps of its arguments\<close>

text \<open>
  Claim C7, as stated: the message can be recovered from the constructed exception. It
  fails: two different messages construct the same exception, here with a base whose
  state is the text \<^verbatim>\<open>"std::exception"\<close>.
\<close>

theorem message_discarded_counterexample:
  "SymmetricCryptoIOException_message ''std::exception'' ''link down'' =
     SymmetricCryptoIOException_message ''std::exception'' ''timeout'' \<and>
   ''link down'' \<noteq> ''timeout''"
  by (simp add: SymmetricCryptoIOException_message_def)

text \<open>
  Claim C7, amended. The exception constructed from a message, or from a message and a
  cause, does not depend on the message: both constructors discard it, so any two
  messages construct the same exception, whatever the cause.
\<close>

theorem exception_independent_of_message:
  "SymmetricCryptoIOException_message d m = SymmetricCryptoIOException_message d m' \<and>
   SymmetricCryptoIOException_message_cause copy m cause =
     SymmetricCryptoIOException_message_cause copy m' cause"
  by (simp add: SymmetricCryptoIOException_message_def
      SymmetricCryptoIOException_message_cause_def)

section \<open>The return types of the setters\<close>

text \<open>
  Claim C8 at \<^verbatim>\<open>setTerminalChallenge\<close> and \<^verbatim>\<open>setTerminalSvMac\<close>. The four setters are
  documented to return the current instance. \<^verbatim>\<open>setSerialNumber\<close> and
  \<^verbatim>\<open>setTransactionNumber\<close> are declared to return \<^verbatim>\<open>SvCommandSecurityDataApi&\<close>; the other
  two are declared to return \<^verbatim>\<open>SvCommandSecurityDataApi\<close>, an object by value, so a call
  of either cannot hand back the instance it was called on.
\<close>

theorem setters_returning_by_value:
  "declared_return setSerialNumber = Ret_SvCommandSecurityDataApi_ref \<and>
   declared_return setTransactionNumber = Ret_SvCommandSecurityDataApi_ref \<and>
   declared_return setTerminalChallenge = Ret_SvCommandSecurityDataApi_value \<and>
   declared_return setTerminalSvMac = Ret_SvCommandSecurityDataApi_value \<and>
   \<not> may_return_current_instance setTerminalChallenge \<and>
   \<not> may_return_current_instance setTerminalSvMac"
  by (simp add: may_return_current_instance_def)

end
